theory Spec2Isabelle
  imports Complex_Main
begin

section \<open>Python values used by the drivers\<close>

text \<open>
  The drivers in \<^verbatim>\<open>MSOX3000.py\<close> and \<^verbatim>\<open>uxr.py\<close> raise \<^verbatim>\<open>ValueError\<close> themselves and
  rely on the exceptions of the built-in operations they call: list indexing
  (\<^verbatim>\<open>IndexError\<close>), \<^verbatim>\<open>float(str)\<close> and \<^verbatim>\<open>int(str)\<close> (\<^verbatim>\<open>ValueError\<close>),
  \<^verbatim>\<open>int(float)\<close> (\<^verbatim>\<open>OverflowError\<close> on an infinity, \<^verbatim>\<open>ValueError\<close> on a NaN) and a
  dictionary lookup (\<^verbatim>\<open>KeyError\<close>). The message of an exception is not modelled.
\<close>

datatype pyerror = ValueError | IndexError | OverflowError | KeyError

text \<open>Sequencing of two computations that may raise: the first exception wins.\<close>

definition py_bind :: "pyerror + 'a \<Rightarrow> ('a \<Rightarrow> pyerror + 'b) \<Rightarrow> pyerror + 'b" where
  "py_bind r f = (case r of Inl e \<Rightarrow> Inl e | Inr v \<Rightarrow> f v)"

text \<open>\<^verbatim>\<open>xs[i]\<close> for a non-negative index.\<close>

definition py_index :: "'a list \<Rightarrow> nat \<Rightarrow> pyerror + 'a" where
  "py_index xs i = (if i < length xs then Inr (xs ! i) else Inl IndexError)"

text \<open>
  A Python float is an IEEE binary64 value. A finite one is represented by the rational
  number it denotes exactly (the sign of a zero is not kept: \<^verbatim>\<open>-0.0 == 0.0\<close> in Python).
\<close>

datatype pyfloat = Finite rat | PosInf | NegInf | NaN

subsection \<open>Rounding a decimal to binary64\<close>

text \<open>The number of binary digits of a positive integer.\<close>

function bit_length :: "int \<Rightarrow> int" where
  "bit_length n = (if n \<le> 0 then 0 else 1 + bit_length (n div 2))"
  by pat_completeness auto
termination
  by (relation "measure nat") auto

declare bit_length.simps [simp del]

definition pow2 :: "int \<Rightarrow> int" where
  "pow2 k = 2 ^ nat k"

text \<open>
  \<open>round_ratio a b\<close> is the binary64 nearest to \<open>a / b\<close> for positive \<open>a\<close> and \<open>b\<close>, ties
  to the even mantissa: \<open>l\<close> is the binary exponent of \<open>a / b\<close>, \<open>e\<close> the exponent of the
  last mantissa bit (53 bits, at least \<open>-1074\<close> for subnormal values) and \<open>m\<close> the rounded
  mantissa. A rounded value of \<open>2 ^ 1024\<close> or more is an infinity.
\<close>

definition round_ratio :: "int \<Rightarrow> int \<Rightarrow> pyfloat" where
  "round_ratio a b =
     (let k = bit_length a - bit_length b;
          l = (if b * pow2 k \<le> a * pow2 (- k) then k else k - 1);
          e = max (l - 52) (- 1074);
          num = a * pow2 (- e);
          den = b * pow2 e;
          q = num div den;
          r = num mod den;
          m = (if den < 2 * r \<or> (2 * r = den \<and> odd q) then q + 1 else q)
      in if 2 ^ 1024 \<le> m * pow2 e then PosInf
         else Finite (of_int (m * pow2 e) / of_int (pow2 (- e))))"

text \<open>The binary64 nearest to \<open>d * 10 ^ x\<close>.\<close>

definition double_of_decimal :: "int \<Rightarrow> int \<Rightarrow> pyfloat" where
  "double_of_decimal d x =
     (if d = 0 then Finite 0
      else if 0 \<le> x then round_ratio (d * 10 ^ nat x) 1
      else round_ratio d (10 ^ nat (- x)))"

fun negate :: "pyfloat \<Rightarrow> pyfloat" where
  "negate (Finite q) = Finite (- q)"
| "negate PosInf = NegInf"
| "negate NegInf = PosInf"
| "negate NaN = NaN"

subsection \<open>The conversions \<^verbatim>\<open>float(str)\<close>, \<^verbatim>\<open>int(str)\<close> and \<^verbatim>\<open>int(float)\<close>\<close>

text \<open>
  The grammar is the one of CPython 3 on ASCII text: surrounding whitespace is dropped,
  a single underscore may stand between two digits, a sign may come first. The optional
  limit of CPython on the number of digits of an integer string is not part of the model.
\<close>

definition is_space :: "char \<Rightarrow> bool" where
  "is_space c = (let n = (of_char c :: int) in (9 \<le> n \<and> n \<le> 13) \<or> (28 \<le> n \<and> n \<le> 32))"

definition is_digit :: "char \<Rightarrow> bool" where
  "is_digit c = (let n = (of_char c :: int) in 48 \<le> n \<and> n \<le> 57)"

definition digit_val :: "char \<Rightarrow> int" where
  "digit_val c = of_char c - 48"

definition int_of_digits :: "string \<Rightarrow> int" where
  "int_of_digits s = foldl (\<lambda>n c. 10 * n + digit_val c) 0 s"

definition lower :: "char \<Rightarrow> char" where
  "lower c = (let n = (of_char c :: int) in if 65 \<le> n \<and> n \<le> 90 then char_of (n + 32) else c)"

definition strip :: "string \<Rightarrow> string" where
  "strip s = rev (dropWhile is_space (rev (dropWhile is_space s)))"

text \<open>
  Underscores are removed; one that does not follow a digit, or is not followed by one,
  makes the text invalid. \<open>prev\<close> is the character before.
\<close>

fun deunderscore :: "char \<Rightarrow> string \<Rightarrow> string option" where
  "deunderscore prev [] = (if prev = CHR ''_'' then None else Some [])"
| "deunderscore prev (c # cs) =
     (if c = CHR ''_'' then (if is_digit prev then deunderscore c cs else None)
      else if prev = CHR ''_'' \<and> \<not> is_digit c then None
      else map_option ((#) c) (deunderscore c cs))"

definition split_sign :: "string \<Rightarrow> bool \<times> string" where
  "split_sign s =
     (case s of [] \<Rightarrow> (False, [])
      | c # cs \<Rightarrow> if c = CHR ''-'' then (True, cs)
                 else if c = CHR ''+'' then (False, cs) else (False, s))"

text \<open>The exponent part of a decimal: empty, or \<^verbatim>\<open>e\<close> or \<^verbatim>\<open>E\<close>, a sign and digits.\<close>

definition parse_exponent :: "string \<Rightarrow> int option" where
  "parse_exponent s =
     (case s of [] \<Rightarrow> Some 0
      | c # cs \<Rightarrow>
          if c = CHR ''e'' \<or> c = CHR ''E'' then
            (let (neg, ds) = split_sign cs
             in if ds \<noteq> [] \<and> list_all is_digit ds
                then Some (if neg then - int_of_digits ds else int_of_digits ds)
                else None)
          else None)"

text \<open>
  A decimal \<^verbatim>\<open>digits [. digits] [exponent]\<close> with a digit before or after the point;
  the result \<open>(d, x)\<close> stands for \<open>d * 10 ^ x\<close>.
\<close>

definition parse_decimal :: "string \<Rightarrow> (int \<times> int) option" where
  "parse_decimal s =
     (let ipart = takeWhile is_digit s;
          rest1 = dropWhile is_digit s;
          point = (rest1 \<noteq> [] \<and> hd rest1 = CHR ''.'');
          fpart = (if point then takeWhile is_digit (tl rest1) else []);
          rest2 = (if point then dropWhile is_digit (tl rest1) else rest1)
      in if ipart = [] \<and> fpart = [] then None
         else (case parse_exponent rest2 of None \<Rightarrow> None
               | Some x \<Rightarrow> Some (int_of_digits (ipart @ fpart), x - int (length fpart))))"

definition py_float :: "string \<Rightarrow> pyerror + pyfloat" where
  "py_float s =
     (case deunderscore (CHR 0x00) s of None \<Rightarrow> Inl ValueError
      | Some t \<Rightarrow>
          (let (neg, body) = split_sign (strip t)
           in if map lower body = ''inf'' \<or> map lower body = ''infinity''
              then Inr (if neg then NegInf else PosInf)
              else if map lower body = ''nan'' then Inr NaN
              else (case parse_decimal body of None \<Rightarrow> Inl ValueError
                    | Some (d, x) \<Rightarrow>
                        Inr (if neg then negate (double_of_decimal d x)
                             else double_of_decimal d x))))"

definition py_int_str :: "string \<Rightarrow> pyerror + int" where
  "py_int_str s =
     (case deunderscore (CHR 0x00) s of None \<Rightarrow> Inl ValueError
      | Some t \<Rightarrow>
          (let (neg, body) = split_sign (strip t)
           in if body \<noteq> [] \<and> list_all is_digit body
              then Inr (if neg then - int_of_digits body else int_of_digits body)
              else Inl ValueError))"

text \<open>\<^verbatim>\<open>int(x)\<close> of a float truncates towards zero.\<close>

fun py_int_float :: "pyfloat \<Rightarrow> pyerror + int" where
  "py_int_float (Finite q) = Inr (if 0 \<le> q then \<lfloor>q\<rfloor> else - \<lfloor>- q\<rfloor>)"
| "py_int_float PosInf = Inl OverflowError"
| "py_int_float NegInf = Inl OverflowError"
| "py_int_float NaN = Inl ValueError"

text \<open>The comparisons \<^verbatim>\<open>>=\<close> and \<^verbatim>\<open><\<close> of two floats; both are false on a NaN.\<close>

fun py_ge :: "pyfloat \<Rightarrow> pyfloat \<Rightarrow> bool" where
  "py_ge NaN y = False"
| "py_ge x NaN = False"
| "py_ge PosInf y = True"
| "py_ge x NegInf = True"
| "py_ge NegInf y = False"
| "py_ge x PosInf = False"
| "py_ge (Finite p) (Finite q) = (q \<le> p)"

fun py_lt :: "pyfloat \<Rightarrow> pyfloat \<Rightarrow> bool" where
  "py_lt NaN y = False"
| "py_lt x NaN = False"
| "py_lt x NegInf = False"
| "py_lt PosInf y = False"
| "py_lt NegInf y = True"
| "py_lt x PosInf = True"
| "py_lt (Finite p) (Finite q) = (p < q)"

section \<open>The instrument drivers\<close>

text \<open>
  The classes \<^verbatim>\<open>MSOX3000\<close> and \<^verbatim>\<open>UXR\<close> extend the base class \<^verbatim>\<open>Keysight\<close>, whose
  source is not among the files studied. What the drivers use of it is taken as a
  parameter: the constant \<^verbatim>\<open>Keysight.OverRange\<close>, the formatting of a channel name
  \<^verbatim>\<open>channelStr\<close> and the table behind \<^verbatim>\<open>measureTblUnits\<close>.
\<close>

record 'c Keysight =
  OverRange :: pyfloat
  channelStr :: "'c \<Rightarrow> string"
  measureTbl :: "string option \<rightharpoonup> string"

text \<open>
  A channel argument is one channel value or a Python list of them
  (\<^verbatim>\<open>type(self.channel) is not list\<close> tells them apart).
\<close>

datatype 'c chan_arg = Single 'c | Multi "'c list"

text \<open>
  What a method does to the instrument, in order: the SCPI command strings it writes
  itself with \<^verbatim>\<open>_instWrite\<close>, and the calls it delegates to the methods of the base
  class, \<^verbatim>\<open>super()._measureStatistics()\<close> and \<^verbatim>\<open>super().setupAutoscale(channel)\<close>.
  Whatever a delegated method writes happens within that call.
\<close>

datatype 'c action =
    Write string
  | Super_measureStatistics
  | Super_setupAutoscale "'c chan_arg option"

text \<open>
  The driver object: the list of valid channels and the default channel, both
  attributes of the object, and the actions performed so far.
\<close>

record 'c driver =
  chanAllValidList :: "'c list"
  channel :: "'c chan_arg"
  actions :: "'c action list"

text \<open>
  Modelled from the spec: \<^verbatim>\<open>_instWrite\<close> of the base class issues a raw SCPI write;
  failures of the transport are left to the session object and are not modelled.
\<close>

definition instWrite :: "string \<Rightarrow> 'c driver \<Rightarrow> 'c driver" where
  "instWrite cmd self = self\<lparr>actions := actions self @ [Write cmd]\<rparr>"

definition super_call :: "'c action \<Rightarrow> 'c driver \<Rightarrow> 'c driver" where
  "super_call a self = self\<lparr>actions := actions self @ [a]\<rparr>"

subsection \<open>\<^verbatim>\<open>MSOX3000.setupAutoscaleOLD\<close>\<close>

text \<open>
  The loop over \<^verbatim>\<open>chanlist\<close> that builds \<^verbatim>\<open>chanstr\<close>; it raises at the first channel
  that is not in \<^verbatim>\<open>chanAllValidList\<close>.
\<close>

fun chanstr_loop :: "('c \<Rightarrow> string) \<Rightarrow> 'c list \<Rightarrow> 'c list \<Rightarrow> string \<Rightarrow> pyerror + string" where
  "chanstr_loop cstr valid [] chanstr = Inr chanstr"
| "chanstr_loop cstr valid (chan # rest) chanstr =
     (if chan \<notin> set valid then Inl ValueError
      else chanstr_loop cstr valid rest (chanstr @ '','' @ cstr chan))"

definition MSOX3000_setupAutoscaleOLD ::
  "'c Keysight \<Rightarrow> 'c chan_arg option \<Rightarrow> 'c driver \<Rightarrow> (pyerror + unit) \<times> 'c driver" where
  "MSOX3000_setupAutoscaleOLD K chan_in self =
     (let self1 = (case chan_in of None \<Rightarrow> self | Some c \<Rightarrow> self\<lparr>channel := c\<rparr>);
          chanlist = (case channel self1 of Single c \<Rightarrow> [c] | Multi cs \<Rightarrow> cs)
      in if 5 < length chanlist then (Inl ValueError, self1)
         else (case chanstr_loop (channelStr K) (chanAllValidList self1) chanlist [] of
                 Inl e \<Rightarrow> (Inl e, self1)
               | Inr chanstr \<Rightarrow>
                   (Inr (), instWrite (''AUToscale '' @ drop 1 chanstr) self1)))"

subsection \<open>\<^verbatim>\<open>MSOX3000.polishOLD\<close>\<close>

text \<open>
  The result is the string \<^verbatim>\<open>'------'\<close> or a \<^verbatim>\<open>Quantity\<close> of the quantiphy package,
  built from the value and, when given, a unit.
\<close>

datatype polished = PStr string | PQuantity pyfloat "string option"

text \<open>
  Modelled from the spec: \<^verbatim>\<open>measureTblUnits\<close> of the base class looks the unit of a
  measure name up in a table and raises \<^verbatim>\<open>KeyError\<close> for a name that is not there.
\<close>

definition measureTblUnits :: "'c Keysight \<Rightarrow> string option \<Rightarrow> pyerror + string" where
  "measureTblUnits K meas =
     (case measureTbl K meas of None \<Rightarrow> Inl KeyError | Some u \<Rightarrow> Inr u)"

definition MSOX3000_polishOLD :: "'c Keysight \<Rightarrow> pyfloat \<Rightarrow> string option \<Rightarrow> pyerror + polished" where
  "MSOX3000_polishOLD K val meas =
     (if py_ge val (OverRange K) then Inr (PStr ''------'')
      else (case measureTblUnits K meas of
              Inr u \<Rightarrow> Inr (PQuantity val (Some u))
            | Inl e \<Rightarrow> if e = KeyError then Inr (PQuantity val None) else Inl e))"

subsection \<open>\<^verbatim>\<open>measureStatistics\<close> of both drivers\<close>

text \<open>
  A row of the statistics window, the dictionary built for each group of fields. The
  keys \<^verbatim>\<open>MIN\<close> and \<^verbatim>\<open>MAX\<close> carry a prime, the plain names being taken.
\<close>

record stat =
  label :: string
  CURR :: pyfloat
  MIN' :: pyfloat
  MAX' :: pyfloat
  MEAN :: pyfloat
  STDD :: pyfloat
  COUN :: int

text \<open>
  \<^verbatim>\<open>[statFlat[i:i+7] for i in range(0,len(statFlat),7)]\<close>: the range holds the multiples
  of 7 below the length, and a slice stops at the end of the list.
\<close>

definition statMat :: "'a list \<Rightarrow> 'a list list" where
  "statMat statFlat =
     map (\<lambda>k. take 7 (drop (7 * k) statFlat)) [0 ..< (length statFlat + 6) div 7]"

text \<open>
  The dictionary display evaluates its entries in order, so the first field that is
  missing or does not convert decides the exception. The two drivers differ in the
  conversion of the count only, which is the parameter \<open>count_of\<close>.
\<close>

definition stat_dict :: "(string \<Rightarrow> pyerror + int) \<Rightarrow> string list \<Rightarrow> pyerror + stat" where
  "stat_dict count_of st =
     py_bind (py_index st 0) (\<lambda>l.
     py_bind (py_bind (py_index st 1) py_float) (\<lambda>c.
     py_bind (py_bind (py_index st 2) py_float) (\<lambda>mn.
     py_bind (py_bind (py_index st 3) py_float) (\<lambda>mx.
     py_bind (py_bind (py_index st 4) py_float) (\<lambda>me.
     py_bind (py_bind (py_index st 5) py_float) (\<lambda>sd.
     py_bind (py_bind (py_index st 6) count_of) (\<lambda>n.
     Inr \<lparr>label = l, CURR = c, MIN' = mn, MAX' = mx, MEAN = me, STDD = sd, COUN = n\<rparr>)))))))"

text \<open>The loop \<^verbatim>\<open>for stat in statMat: stats.append(...)\<close>.\<close>

fun stats_loop :: "(string list \<Rightarrow> pyerror + stat) \<Rightarrow> string list list \<Rightarrow> stat list \<Rightarrow> pyerror + stat list" where
  "stats_loop f [] stats = Inr stats"
| "stats_loop f (st # rest) stats =
     (case f st of Inl e \<Rightarrow> Inl e | Inr d \<Rightarrow> stats_loop f rest (stats @ [d]))"

text \<open>\<^verbatim>\<open>int(stat[6])\<close> in MSOX3000 and \<^verbatim>\<open>int(float(stat[6]))\<close> in UXR.\<close>

definition MSOX3000_count :: "string \<Rightarrow> pyerror + int" where
  "MSOX3000_count s = py_int_str s"

definition UXR_count :: "string \<Rightarrow> pyerror + int" where
  "UXR_count s = py_bind (py_float s) py_int_float"

text \<open>
  The first argument is what \<^verbatim>\<open>super()._measureStatistics()\<close> gives back: the flat list
  of fields, or the exception it raises, which the method lets through.
\<close>

definition MSOX3000_measureStatistics ::
  "pyerror + string list \<Rightarrow> 'c driver \<Rightarrow> (pyerror + stat list) \<times> 'c driver" where
  "MSOX3000_measureStatistics reply self =
     (let self1 = instWrite ''SYSTem:MENU MEASure'' self;
          self2 = instWrite ''MEASure:STATistics:DISPlay ON'' self1;
          self3 = super_call Super_measureStatistics self2
      in (py_bind reply (\<lambda>statFlat. stats_loop (stat_dict MSOX3000_count) (statMat statFlat) []),
          self3))"

definition UXR_measureStatistics ::
  "pyerror + string list \<Rightarrow> 'c driver \<Rightarrow> (pyerror + stat list) \<times> 'c driver" where
  "UXR_measureStatistics reply self =
     (let self1 = super_call Super_measureStatistics self
      in (py_bind reply (\<lambda>statFlat. stats_loop (stat_dict UXR_count) (statMat statFlat) []),
          self1))"

subsection \<open>\<^verbatim>\<open>UXR.measureDVMfreq\<close> and \<^verbatim>\<open>UXR.setupAutoscale\<close>\<close>

definition UXR_measureDVMfreq ::
  "'c Keysight \<Rightarrow> 'c chan_arg option \<Rightarrow> 't \<Rightarrow> 'w \<Rightarrow> 'c driver \<Rightarrow> pyfloat \<times> 'c driver" where
  "UXR_measureDVMfreq K chan_in timeout wait self = (OverRange K, self)"

text \<open>
  The second argument is the outcome of the delegated \<^verbatim>\<open>setupAutoscale\<close> of the base
  class, which the method passes on.
\<close>

definition UXR_setupAutoscale ::
  "pyerror + unit \<Rightarrow> 'c chan_arg option \<Rightarrow> 'c driver \<Rightarrow> (pyerror + unit) \<times> 'c driver" where
  "UXR_setupAutoscale super_result chan_in self =
     (let self1 = instWrite ''AUToscale:PLACement SEParate'' self;
          self2 = super_call (Super_setupAutoscale chan_in) self1
      in (super_result, self2))"

section \<open>Notions of the specification and example instances\<close>

text \<open>
  The comma-joined form of a list of names, as \<^verbatim>\<open>','.join\<close> gives it: a separator
  between two names and none in front.
\<close>

fun comma_join :: "string list \<Rightarrow> string" where
  "comma_join [] = []"
| "comma_join [x] = x"
| "comma_join (x # y # ys) = x @ '','' @ comma_join (y # ys)"

text \<open>
  An instance for the examples: a four-channel instrument whose over-range constant is
  the float \<^verbatim>\<open>9.9E+37\<close> and whose table knows the unit of one measure.
\<close>

definition example_base :: "string Keysight" where
  "example_base =
     \<lparr>OverRange = Finite 98999999999999993426744560981400092672,
      channelStr = (\<lambda>c. ''CHAN'' @ c),
      measureTbl = [Some ''Frequency'' \<mapsto> ''Hz'']\<rparr>"

definition example_driver :: "string driver" where
  "example_driver =
     \<lparr>chanAllValidList = [''1'', ''2'', ''3'', ''4''], channel = Single ''1'', actions = []\<rparr>"




section \<open>Properties\<close>

subsection \<open>Autoscale of the MSOX3000\<close>

lemma chanstr_loop_invalid:
  "\<exists>c\<in>set chans. c \<notin> set valid \<Longrightarrow> chanstr_loop cstr valid chans acc = Inl ValueError"
  by (induction chans arbitrary: acc) auto

lemma chanstr_loop_valid:
  "set chans \<subseteq> set valid \<Longrightarrow>
   chanstr_loop cstr valid chans acc = Inr (acc @ concat (map (\<lambda>c. '','' @ cstr c) chans))"
  by (induction chans arbitrary: acc) auto

lemma drop_leading_comma:
  "xs \<noteq> [] \<Longrightarrow> drop 1 (concat (map (\<lambda>x. '','' @ x) xs)) = comma_join xs"
  by (induction xs rule: comma_join.induct) auto

text \<open>
  Claim C2. A channel list with more than 5 entries, or with an entry that is not in
  the list of valid channels, makes \<^verbatim>\<open>setupAutoscaleOLD\<close> raise \<^verbatim>\<open>ValueError\<close>, and
  nothing is written to the instrument: the actions of the driver are as before.
\<close>

theorem setupAutoscaleOLD_rejects:
  assumes "5 < length chans \<or> (\<exists>c\<in>set chans. c \<notin> set (chanAllValidList self))"
  shows "fst (MSOX3000_setupAutoscaleOLD K (Some (Multi chans)) self) = Inl ValueError
       \<and> actions (snd (MSOX3000_setupAutoscaleOLD K (Some (Multi chans)) self)) = actions self"
proof (cases "5 < length chans")
  case True
  then show ?thesis by (simp add: MSOX3000_setupAutoscaleOLD_def)
next
  case False
  with assms have "\<exists>c\<in>set chans. c \<notin> set (chanAllValidList self)" by simp
  then have "chanstr_loop (channelStr K) (chanAllValidList self) chans [] = Inl ValueError"
    by (rule chanstr_loop_invalid)
  with False show ?thesis by (simp add: MSOX3000_setupAutoscaleOLD_def)
qed

theorem setupAutoscaleOLD_rejects_witness:
  "fst (MSOX3000_setupAutoscaleOLD example_base (Some (Multi [''1'', ''9''])) example_driver)
     = Inl ValueError
   \<and> actions (snd (MSOX3000_setupAutoscaleOLD example_base (Some (Multi [''1'', ''9'']))
        example_driver)) = []"
proof -
  have h: "5 < length [''1'', ''9'']
      \<or> (\<exists>c\<in>set [''1'', ''9'']. c \<notin> set (chanAllValidList example_driver))"
    by (simp add: example_driver_def)
  show ?thesis
    using setupAutoscaleOLD_rejects [OF h, of example_base] by (simp add: example_driver_def)
qed

text \<open>
  Claim C3. For a non-empty list of at most 5 channels, each of them valid,
  \<^verbatim>\<open>setupAutoscaleOLD\<close> succeeds and adds exactly one action: the write of
  \<^verbatim>\<open>AUToscale\<close>, a blank and the formatted names of those channels, comma-joined in the
  order of the list with no separator in front.
\<close>

theorem setupAutoscaleOLD_command:
  assumes "chans \<noteq> []" and "length chans \<le> 5"
    and "set chans \<subseteq> set (chanAllValidList self)"
  shows "MSOX3000_setupAutoscaleOLD K (Some (Multi chans)) self =
           (Inr (), self\<lparr>channel := Multi chans,
                         actions := actions self @
                           [Write (''AUToscale '' @ comma_join (map (channelStr K) chans))]\<rparr>)"
proof -
  have "chanstr_loop (channelStr K) (chanAllValidList self) chans [] =
          Inr (concat (map (\<lambda>c. '','' @ channelStr K c) chans))"
    using assms(3) by (simp add: chanstr_loop_valid)
  moreover have "drop 1 (concat (map (\<lambda>c. '','' @ channelStr K c) chans)) =
          comma_join (map (channelStr K) chans)"
    using drop_leading_comma [of "map (channelStr K) chans"] assms(1)
    by (simp add: comp_def)
  ultimately show ?thesis
    using assms(2) by (simp add: MSOX3000_setupAutoscaleOLD_def instWrite_def)
qed

theorem setupAutoscaleOLD_command_witness:
  "MSOX3000_setupAutoscaleOLD example_base (Some (Multi [''1'', ''3''])) example_driver =
     (Inr (), \<lparr>chanAllValidList = [''1'', ''2'', ''3'', ''4''], channel = Multi [''1'', ''3''],
               actions = [Write ''AUToscale CHAN1,CHAN3'']\<rparr>)"
proof -
  have h1: "[''1'', ''3''] \<noteq> ([] :: string list)" by simp
  have h2: "length [''1'', ''3''] \<le> 5" by simp
  have h3: "set [''1'', ''3''] \<subseteq> set (chanAllValidList example_driver)"
    by (simp add: example_driver_def)
  show ?thesis
    using setupAutoscaleOLD_command [OF h1 h2 h3, of example_base]
    by (simp add: example_driver_def example_base_def)
qed

text \<open>
  Claim C10. A channel argument that is not \<^verbatim>\<open>None\<close> is the default channel of the
  driver after the call, whatever the outcome; so when the call raises the validation
  error for a list that is too long or holds an invalid channel, the driver is left with
  the rejected list as its default channel.
\<close>

theorem setupAutoscaleOLD_not_atomic:
  "channel (snd (MSOX3000_setupAutoscaleOLD K (Some a) self)) = a
   \<and> ((5 < length chans \<or> (\<exists>c\<in>set chans. c \<notin> set (chanAllValidList self))) \<longrightarrow>
        MSOX3000_setupAutoscaleOLD K (Some (Multi chans)) self =
          (Inl ValueError, self\<lparr>channel := Multi chans\<rparr>))"
proof
  show "channel (snd (MSOX3000_setupAutoscaleOLD K (Some a) self)) = a"
    by (simp add: MSOX3000_setupAutoscaleOLD_def Let_def instWrite_def split: sum.splits)
next
  show "(5 < length chans \<or> (\<exists>c\<in>set chans. c \<notin> set (chanAllValidList self))) \<longrightarrow>
        MSOX3000_setupAutoscaleOLD K (Some (Multi chans)) self =
          (Inl ValueError, self\<lparr>channel := Multi chans\<rparr>)"
  proof
    assume h: "5 < length chans \<or> (\<exists>c\<in>set chans. c \<notin> set (chanAllValidList self))"
    show "MSOX3000_setupAutoscaleOLD K (Some (Multi chans)) self =
          (Inl ValueError, self\<lparr>channel := Multi chans\<rparr>)"
    proof (cases "5 < length chans")
      case True
      then show ?thesis by (simp add: MSOX3000_setupAutoscaleOLD_def)
    next
      case False
      with h have "chanstr_loop (channelStr K) (chanAllValidList self) chans [] = Inl ValueError"
        by (simp add: chanstr_loop_invalid)
      with False show ?thesis by (simp add: MSOX3000_setupAutoscaleOLD_def)
    qed
  qed
qed

theorem setupAutoscaleOLD_not_atomic_witness:
  "channel (snd (MSOX3000_setupAutoscaleOLD example_base (Some (Multi [''7''])) example_driver))
     = Multi [''7'']
   \<and> MSOX3000_setupAutoscaleOLD example_base (Some (Multi [''7''])) example_driver =
        (Inl ValueError,
         \<lparr>chanAllValidList = [''1'', ''2'', ''3'', ''4''], channel = Multi [''7''], actions = []\<rparr>)"
  using setupAutoscaleOLD_not_atomic [of example_base "Multi [''7'']" example_driver "[''7'']"]
  by (simp add: example_driver_def)

subsection \<open>The UXR overrides\<close>

text \<open>
  Claim C4. Whatever the channel argument (\<^verbatim>\<open>None\<close> included), the timeout and the
  wait, \<^verbatim>\<open>measureDVMfreq\<close> of the UXR returns \<^verbatim>\<open>Keysight.OverRange\<close> and leaves the driver
  as it was: no action is performed.
\<close>

theorem measureDVMfreq_overflow:
  "fst (UXR_measureDVMfreq K chan_in timeout wait self) = OverRange K
   \<and> snd (UXR_measureDVMfreq K chan_in timeout wait self) = self"
  by (simp add: UXR_measureDVMfreq_def)

text \<open>
  Claim C9. The first action of \<^verbatim>\<open>setupAutoscale\<close> of the UXR is the write of
  \<^verbatim>\<open>AUToscale:PLACement SEParate\<close>; the call of the shared implementation, within which
  all its commands are issued, comes after it, and its outcome is the outcome of the
  method.
\<close>

theorem UXR_setupAutoscale_placement_first:
  "actions (snd (UXR_setupAutoscale super_result chan_in self)) =
     actions self @ [Write ''AUToscale:PLACement SEParate'', Super_setupAutoscale chan_in]
   \<and> fst (UXR_setupAutoscale super_result chan_in self) = super_result"
  by (simp add: UXR_setupAutoscale_def instWrite_def super_call_def)

subsection \<open>The actions of \<^verbatim>\<open>measureStatistics\<close>\<close>

text \<open>
  Claim C7, as stated, fails for the UXR: its \<^verbatim>\<open>measureStatistics\<close> calls the shared
  method at once, with no write before it.
\<close>

theorem UXR_measureStatistics_no_writes:
  "actions (snd (UXR_measureStatistics (Inr []) example_driver)) = [Super_measureStatistics]"
  by (simp add: UXR_measureStatistics_def super_call_def example_driver_def)

text \<open>
  Claim C7, amended. \<^verbatim>\<open>measureStatistics\<close> of the MSOX3000 writes
  \<^verbatim>\<open>SYSTem:MENU MEASure\<close>, then \<^verbatim>\<open>MEASure:STATistics:DISPlay ON\<close>, and only then calls the
  shared method for the flat statistics; \<^verbatim>\<open>measureStatistics\<close> of the UXR calls the
  shared method and writes nothing itself.
\<close>

theorem measureStatistics_actions:
  "actions (snd (MSOX3000_measureStatistics reply self)) =
     actions self @ [Write ''SYSTem:MENU MEASure'', Write ''MEASure:STATistics:DISPlay ON'',
                     Super_measureStatistics]
   \<and> actions (snd (UXR_measureStatistics reply self)) = actions self @ [Super_measureStatistics]"
  by (simp add: MSOX3000_measureStatistics_def UXR_measureStatistics_def instWrite_def
      super_call_def)

subsection \<open>Formatting of a measurement value\<close>

lemma py_lt_not_ge: "py_lt x y \<Longrightarrow> \<not> py_ge x y"
  by (induction x y rule: py_ge.induct) auto

text \<open>
  Claim C5, as stated, fails for a measure name that the table does not know, \<^verbatim>\<open>None\<close>
  among them: the value 1.0 is below the threshold, and the quantity returned for it
  carries no unit.
\<close>

theorem polishOLD_no_unit:
  "py_lt (Finite 1) (OverRange example_base)
   \<and> MSOX3000_polishOLD example_base (Finite 1) None = Inr (PQuantity (Finite 1) None)"
  by (simp add: MSOX3000_polishOLD_def measureTblUnits_def example_base_def)

text \<open>
  Claim C5, amended. \<^verbatim>\<open>polishOLD\<close> returns the string \<^verbatim>\<open>'------'\<close> if and only if the
  value is greater than or equal to \<^verbatim>\<open>Keysight.OverRange\<close>. For every other value, so for
  every value strictly below the threshold, it returns a quantity of that value: with
  the unit of the measure name when the table has one, and with no unit when the lookup
  raises \<^verbatim>\<open>KeyError\<close>.
\<close>

theorem polishOLD_result:
  "(MSOX3000_polishOLD K val meas = Inr (PStr ''------'') \<longleftrightarrow> py_ge val (OverRange K))
   \<and> (\<not> py_ge val (OverRange K) \<longrightarrow>
        MSOX3000_polishOLD K val meas = Inr (PQuantity val (measureTbl K meas)))
   \<and> (py_lt val (OverRange K) \<longrightarrow> \<not> py_ge val (OverRange K))"
  by (auto simp: MSOX3000_polishOLD_def measureTblUnits_def py_lt_not_ge split: option.splits)

theorem polishOLD_result_witness:
  "MSOX3000_polishOLD example_base (Finite 1) (Some ''Frequency'')
     = Inr (PQuantity (Finite 1) (Some ''Hz''))
   \<and> MSOX3000_polishOLD example_base PosInf (Some ''Frequency'') = Inr (PStr ''------'')"
  using polishOLD_result [of example_base "Finite 1" "Some ''Frequency''"]
    polishOLD_result [of example_base PosInf "Some ''Frequency''"]
  by (simp add: example_base_def)

subsection \<open>The records of \<^verbatim>\<open>measureStatistics\<close>\<close>
















subsection \<open>Replies that are short or do not convert\<close>



lemma statMat_Nil: "statMat [] = []"
  by (simp add: statMat_def)


















subsection \<open>The count field on the two drivers\<close>

























lemma float_100_0: "py_float ''100.0'' = Inr (Finite 100)"
  by code_simp











end
